theory Spec2Isabelle
  imports Complex_Main "HOL-Library.Log_Nat"
begin

section \<open>Discrete-time nonlinear dynamics of a vehicle (vehicle_dynamics.py)\<close>

subsection \<open>Numeric values\<close>

text \<open>
  The source computes on numpy float64 scalars. A value is modelled as either a
  finite real number or a non-finite result (an infinity or a NaN, not told apart).
  Arithmetic on finite values is exact real arithmetic: rounding and overflow are not
  modelled here. A division by zero does not raise in numpy; it yields an infinity or
  a NaN, here \<open>NonFinite\<close>. Every divisor of the program is a finite value, so a
  non-finite operand always gives a non-finite result in the operations the program
  performs.

  With exact arithmetic a theorem of this development says which expression an output
  evaluates; it never rests on a rearrangement of sums or products, which rounding
  would not respect. The rounding of float64 itself is modelled apart, for line 66,
  in the subsection on binary64 below.
\<close>

datatype fval = Fin real | NonFinite

instantiation fval :: "{plus, minus, uminus, times, inverse}"
begin

definition plus_fval :: "fval \<Rightarrow> fval \<Rightarrow> fval" where
  "plus_fval v w = (case (v, w) of (Fin a, Fin b) \<Rightarrow> Fin (a + b) | _ \<Rightarrow> NonFinite)"

definition minus_fval :: "fval \<Rightarrow> fval \<Rightarrow> fval" where
  "minus_fval v w = (case (v, w) of (Fin a, Fin b) \<Rightarrow> Fin (a - b) | _ \<Rightarrow> NonFinite)"

definition uminus_fval :: "fval \<Rightarrow> fval" where
  "uminus_fval v = (case v of Fin a \<Rightarrow> Fin (- a) | NonFinite \<Rightarrow> NonFinite)"

definition times_fval :: "fval \<Rightarrow> fval \<Rightarrow> fval" where
  "times_fval v w = (case (v, w) of (Fin a, Fin b) \<Rightarrow> Fin (a * b) | _ \<Rightarrow> NonFinite)"

definition divide_fval :: "fval \<Rightarrow> fval \<Rightarrow> fval" where
  "divide_fval v w =
     (case (v, w) of
        (Fin a, Fin b) \<Rightarrow> (if b = 0 then NonFinite else Fin (a / b))
      | _ \<Rightarrow> NonFinite)"

definition inverse_fval :: "fval \<Rightarrow> fval" where
  "inverse_fval v = (case v of Fin a \<Rightarrow> (if a = 0 then NonFinite else Fin (1 / a)) | NonFinite \<Rightarrow> NonFinite)"

instance ..

end

text \<open>\<open>np.sin\<close> and \<open>np.cos\<close> on a scalar.\<close>

definition np_sin :: "fval \<Rightarrow> fval" where
  "np_sin v = (case v of Fin a \<Rightarrow> Fin (sin a) | NonFinite \<Rightarrow> NonFinite)"

definition np_cos :: "fval \<Rightarrow> fval" where
  "np_cos v = (case v of Fin a \<Rightarrow> Fin (cos a) | NonFinite \<Rightarrow> NonFinite)"

text \<open>Reading a finite value back as a real number (0 for a non-finite one).\<close>

definition fin_of :: "fval \<Rightarrow> real" where
  "fin_of v = (case v of Fin a \<Rightarrow> a | NonFinite \<Rightarrow> 0)"

definition is_fin :: "fval \<Rightarrow> bool" where
  "is_fin v = (case v of Fin a \<Rightarrow> True | NonFinite \<Rightarrow> False)"

subsection \<open>Module constants\<close>

definition ns :: nat where "ns = 6"
definition ni :: nat where "ni = 2"
definition dt :: real where "dt = 1 / 1000"

definition mm :: real where "mm = 1480"
definition Iz :: real where "Iz = 1950"
definition aa :: real where "aa = 1421 / 1000"
definition bb :: real where "bb = 1029 / 1000"
definition mi :: real where "mi = 1"
definition gg :: real where "gg = 981 / 100"

subsection \<open>The function \<open>dynamics\<close>\<close>

datatype error = IndexError

type_synonym vec = "fval list"
type_synonym mat = "fval list list"

text \<open>
  The arguments are one-dimensional arrays of finite numbers. The function reads
  \<open>uu[0]\<close>, \<open>uu[1]\<close> and \<open>xx[0]\<close> to \<open>xx[5]\<close>; an index beyond the end of
  an array raises IndexError.
\<close>

text \<open>Slip angles for front and rear (lines 54 to 57).\<close>

definition Beta :: "real list \<Rightarrow> real list \<Rightarrow> fval list" where
  "Beta xx uu =
     (let x = (\<lambda>i. Fin (xx ! i)); u = (\<lambda>i. Fin (uu ! i)) in
      [ u 0 - (x 3 * np_sin (x 4) + Fin aa * x 5) / (x 3 * np_cos (x 4)),
        (- (x 3 * np_sin (x 4) - Fin bb * x 5)) / (x 3 * np_cos (x 4)) ])"

text \<open>Vertical forces at front and rear (line 60).\<close>

definition Fz :: "fval list" where
  "Fz = [ Fin mm * Fin gg * Fin bb / (Fin aa + Fin bb),
          Fin mm * Fin gg * Fin aa / (Fin aa + Fin bb) ]"

text \<open>Lateral forces at front and rear (line 63).\<close>

definition Fy :: "real list \<Rightarrow> real list \<Rightarrow> fval list" where
  "Fy xx uu = [ Fin mi * (Fz ! 0) * (Beta xx uu ! 0), Fin mi * (Fz ! 1) * (Beta xx uu ! 1) ]"

text \<open>
  The next state: preallocated as zeros (line 51), written component by component
  (lines 66 to 71), its singleton dimension removed (line 102).
\<close>

definition xxp :: "real list \<Rightarrow> real list \<Rightarrow> vec" where
  "xxp xx uu =
     (let x = (\<lambda>i. Fin (xx ! i)); u = (\<lambda>i. Fin (uu ! i));
          Fy0 = Fy xx uu ! 0; Fy1 = Fy xx uu ! 1;
          zeros = replicate ns (Fin 0)
      in zeros
        [ 0 := x 0 + Fin dt * (x 3 * np_cos (x 4) * np_cos (x 2) - x 3 * np_sin (x 4) * np_sin (x 2)),
          1 := x 1 + Fin dt * (x 3 * np_cos (x 4) * np_sin (x 2) + x 3 * np_sin (x 4) * np_cos (x 2)),
          2 := x 2 + Fin dt * x 5,
          3 := x 3 + Fin dt * ((Fy1 * np_sin (x 4) + u 1 * np_cos (x 4 - u 0)
                                 + Fy0 * np_sin (x 4 - u 0)) / Fin mm),
          4 := x 4 + Fin dt * ((Fy1 * np_cos (x 4) + Fy0 * np_cos (x 4 - u 0)
                                 - u 1 * np_sin (x 4 - u 0)) / (Fin mm * x 3) - x 5),
          5 := x 5 + Fin dt * (((u 1 * np_sin (u 0) + Fy0 * np_cos (u 0)) * Fin aa
                                 - Fy1 * Fin bb) / Fin Iz) ])"

text \<open>
  The gradient with respect to the state (lines 79 to 99). The zero matrix of line 75
  is replaced whole at line 86; the results of \<open>squeeze\<close> at lines 103 and 104 are
  dropped.
\<close>

definition fx :: "real list \<Rightarrow> real list \<Rightarrow> mat" where
  "fx xx uu =
     (let x = (\<lambda>i. Fin (xx ! i)); u = (\<lambda>i. Fin (uu ! i));
          Fy0 = Fy xx uu ! 0; Fy1 = Fy xx uu ! 1;
          cos_xx4 = np_cos (x 4);
          sin_xx4 = np_sin (x 4);
          m_xx3_sq = Fin mm * (x 3 * x 3)  \<comment> \<open>\<open>xx[3]**2\<close>\<close>
      in
      [ [Fin 1, Fin 0, Fin 0, Fin 0, Fin 0, Fin 0],
        [Fin 0, Fin 1, Fin 0, Fin 0, Fin 0, Fin 0],
        [Fin dt * (- x 3 * cos_xx4 * np_sin (x 2) - x 3 * sin_xx4 * np_cos (x 2)),
         Fin dt * (x 3 * cos_xx4 * np_cos (x 2) - x 3 * sin_xx4 * np_sin (x 2)),
         Fin 1, Fin 0, Fin 0, Fin 0],
        [Fin dt * (np_cos (x 4) * np_cos (x 2) - np_sin (x 4) * np_sin (x 2)),
         Fin dt * (np_cos (x 4) * np_sin (x 2) + np_sin (x 4) * np_cos (x 2)),
         Fin 0, Fin 1,
         Fin dt * ((Fy1 * np_cos (x 4) + Fy0 * np_cos (x 4 - u 0) - u 1 * np_sin (x 4 - u 0))
                   * (Fin (- 1) / m_xx3_sq)),
         Fin 0],
        [Fin dt * (- x 3 * sin_xx4 * np_cos (x 2) - x 3 * cos_xx4 * np_sin (x 2)),
         Fin dt * (- x 3 * sin_xx4 * np_sin (x 2) + x 3 * cos_xx4 * np_cos (x 2)),
         Fin 0,
         Fin dt * ((Fy1 * np_cos (x 4) - u 1 * np_sin (x 4 - u 0) + Fy0 * np_cos (x 4 - u 0))
                   / Fin mm),
         Fin 1 + Fin dt * ((- Fy1 * np_sin (x 4) - Fy0 * np_sin (x 4 - u 0)
                            - u 1 * np_cos (x 4 - u 0)) / (Fin mm * x 3)),
         Fin 0],
        [Fin 0, Fin 0, Fin dt, Fin 0, - Fin dt, Fin 1] ])"

text \<open>The gradient with respect to the input: allocated at line 76, never written.\<close>

definition fu :: mat where
  "fu = replicate ni (replicate ns (Fin 0))"

definition dynamics :: "real list \<Rightarrow> real list \<Rightarrow> error + (vec \<times> mat \<times> mat)" where
  "dynamics xx uu =
     (if length uu < 2 \<or> length xx < 6 then Inl IndexError
      else Inr (xxp xx uu, fx xx uu, fu))"

subsection \<open>The three returned values\<close>

text \<open>
  The first, second and third value a call returns, \<open>None\<close> when the call raises;
  a component of the first, and a row, a column and an entry of the second.
\<close>

definition dynamics_xxp :: "real list \<Rightarrow> real list \<Rightarrow> vec option" where
  "dynamics_xxp xx uu = (case dynamics xx uu of Inl e \<Rightarrow> None | Inr (n, f, g) \<Rightarrow> Some n)"

definition dynamics_fx :: "real list \<Rightarrow> real list \<Rightarrow> mat option" where
  "dynamics_fx xx uu = (case dynamics xx uu of Inl e \<Rightarrow> None | Inr (n, f, g) \<Rightarrow> Some f)"

definition dynamics_fu :: "real list \<Rightarrow> real list \<Rightarrow> mat option" where
  "dynamics_fu xx uu = (case dynamics xx uu of Inl e \<Rightarrow> None | Inr (n, f, g) \<Rightarrow> Some g)"

definition dynamics_xxp_at :: "real list \<Rightarrow> real list \<Rightarrow> nat \<Rightarrow> fval option" where
  "dynamics_xxp_at xx uu i = map_option (\<lambda>n. n ! i) (dynamics_xxp xx uu)"

definition dynamics_fx_row :: "real list \<Rightarrow> real list \<Rightarrow> nat \<Rightarrow> vec option" where
  "dynamics_fx_row xx uu i = map_option (\<lambda>f. f ! i) (dynamics_fx xx uu)"

definition dynamics_fx_col :: "real list \<Rightarrow> real list \<Rightarrow> nat \<Rightarrow> vec option" where
  "dynamics_fx_col xx uu j = map_option (map (\<lambda>r. r ! j)) (dynamics_fx xx uu)"

definition dynamics_fx_at :: "real list \<Rightarrow> real list \<Rightarrow> nat \<Rightarrow> nat \<Rightarrow> fval option" where
  "dynamics_fx_at xx uu i j = map_option (\<lambda>f. f ! i ! j) (dynamics_fx xx uu)"

subsection \<open>The model as the specification words it\<close>

text \<open>
  Section 4.1 of the specification, steps 1 to 4, over the real numbers, with
  \<open>x = [X, Y, psi, V, beta, omega]\<close> and \<open>u = [delta, Fx]\<close>.
\<close>

definition spec_beta_f :: "real list \<Rightarrow> real list \<Rightarrow> real" where
  "spec_beta_f x u = u ! 0 - (x ! 3 * sin (x ! 4) + aa * x ! 5) / (x ! 3 * cos (x ! 4))"

definition spec_beta_r :: "real list \<Rightarrow> real list \<Rightarrow> real" where
  "spec_beta_r x u = - (x ! 3 * sin (x ! 4) - bb * x ! 5) / (x ! 3 * cos (x ! 4))"

definition spec_Fz_f :: real where
  "spec_Fz_f = mm * gg * bb / (aa + bb)"

definition spec_Fz_r :: real where
  "spec_Fz_r = mm * gg * aa / (aa + bb)"

definition spec_Fy_f :: "real list \<Rightarrow> real list \<Rightarrow> real" where
  "spec_Fy_f x u = mi * spec_Fz_f * spec_beta_f x u"

definition spec_Fy_r :: "real list \<Rightarrow> real list \<Rightarrow> real" where
  "spec_Fy_r x u = mi * spec_Fz_r * spec_beta_r x u"

definition spec_next_state :: "real list \<Rightarrow> real list \<Rightarrow> real list" where
  "spec_next_state x u =
     (let X = x ! 0; Y = x ! 1; psi = x ! 2; V = x ! 3; beta = x ! 4; omega = x ! 5;
          delta = u ! 0; F_x = u ! 1;
          Fy_f = spec_Fy_f x u; Fy_r = spec_Fy_r x u
      in [ X + dt * (V * cos beta * cos psi - V * sin beta * sin psi),
           Y + dt * (V * cos beta * sin psi + V * sin beta * cos psi),
           psi + dt * omega,
           V + dt * (Fy_r * sin beta + F_x * cos (beta - delta) + Fy_f * sin (beta - delta)) / mm,
           beta + dt * ((Fy_r * cos beta + Fy_f * cos (beta - delta) - F_x * sin (beta - delta))
                         / (mm * V) - omega),
           omega + dt * (((F_x * sin delta + Fy_f * cos delta) * aa - Fy_r * bb) / Iz) ])"

text \<open>
  Section 4.1 step 5 of the specification: rows 0, 2 and 5 of the matrix it describes,
  with \<open>psi = x[2]\<close>, \<open>V = x[3]\<close>, \<open>beta = x[4]\<close>.
\<close>

definition spec_fx_row0 :: "real list \<Rightarrow> real list" where
  "spec_fx_row0 x =
     (let psi = x ! 2; V = x ! 3; beta = x ! 4
      in [ 1, 0,
           dt * (- V * cos beta * sin psi - V * sin beta * cos psi),
           dt * (cos beta * cos psi - sin beta * sin psi),
           dt * (- V * sin beta * cos psi - V * cos beta * sin psi),
           0 ])"

definition spec_fx_row2 :: "real list" where
  "spec_fx_row2 = [0, 0, 1, 0, 0, dt]"

definition spec_fx_row5 :: "real list" where
  "spec_fx_row5 = [0, 0, dt, 0, - dt, 1]"

subsection \<open>Partial derivatives of the next state\<close>

text \<open>
  \<open>partial_xxp x u j i d\<close>: at the state \<open>x\<close>, the next-state component \<open>j\<close>, as
  a function of the state component \<open>i\<close> alone, has the derivative \<open>d\<close>.
\<close>

definition partial_xxp :: "real list \<Rightarrow> real list \<Rightarrow> nat \<Rightarrow> nat \<Rightarrow> real \<Rightarrow> bool" where
  "partial_xxp x u j i d =
     ((\<lambda>p. fin_of (xxp (x[i := p]) u ! j)) has_real_derivative d) (at (x ! i))"

subsection \<open>The next state with the lateral forces held fixed\<close>

text \<open>
  Lines 66 to 71 once more, over the real numbers, with the two lateral forces
  \<open>Fy[0]\<close> and \<open>Fy[1]\<close> as parameters instead of functions of the state: the
  map whose partial derivatives the matrix \<open>fx\<close> holds, since the source does not
  differentiate the forces.
\<close>

definition xxp_frozen :: "real \<Rightarrow> real \<Rightarrow> real list \<Rightarrow> real list \<Rightarrow> real list" where
  "xxp_frozen Fy0 Fy1 xx uu =
     [ xx ! 0 + dt * (xx ! 3 * cos (xx ! 4) * cos (xx ! 2) - xx ! 3 * sin (xx ! 4) * sin (xx ! 2)),
       xx ! 1 + dt * (xx ! 3 * cos (xx ! 4) * sin (xx ! 2) + xx ! 3 * sin (xx ! 4) * cos (xx ! 2)),
       xx ! 2 + dt * xx ! 5,
       xx ! 3 + dt * ((Fy1 * sin (xx ! 4) + uu ! 1 * cos (xx ! 4 - uu ! 0)
                       + Fy0 * sin (xx ! 4 - uu ! 0)) / mm),
       xx ! 4 + dt * ((Fy1 * cos (xx ! 4) + Fy0 * cos (xx ! 4 - uu ! 0)
                       - uu ! 1 * sin (xx ! 4 - uu ! 0)) / (mm * xx ! 3) - xx ! 5),
       xx ! 5 + dt * (((uu ! 1 * sin (uu ! 0) + Fy0 * cos (uu ! 0)) * aa - Fy1 * bb) / Iz) ]"

text \<open>
  \<open>gradient_entry x u i j\<close>: the entry \<open>fx[i][j]\<close> is finite and is the derivative,
  with respect to the state component \<open>i\<close>, of the next-state component \<open>j\<close> with
  the lateral forces held at their values at \<open>x\<close>.
\<close>

definition gradient_entry :: "real list \<Rightarrow> real list \<Rightarrow> nat \<Rightarrow> nat \<Rightarrow> bool" where
  "gradient_entry x u i j =
     (is_fin (fx x u ! i ! j) \<and>
      ((\<lambda>p. xxp_frozen (fin_of (Fy x u ! 0)) (fin_of (Fy x u ! 1)) (x[i := p]) u ! j)
         has_real_derivative fin_of (fx x u ! i ! j)) (at (x ! i)))"

subsection \<open>A call on the heap of arrays\<close>

text \<open>
  numpy arrays are objects on the heap, passed by reference: a call could write into
  its arguments, or keep an array from one call to the next. The heap is the list of
  the arrays allocated so far, an address is an index into it, and an allocation
  appends. The Python lists \<open>Beta\<close>, \<open>Fz\<close> and \<open>Fy\<close> and the scalars are local
  values that nothing writes to after they are built; they are not put on the heap.
  The module constants are numbers bound at module level; the body has no
  \<open>global\<close> statement and assigns to none of them.
\<close>

type_synonym addr = nat

datatype ndarray = Arr1 "fval list" | Arr2 "fval list list"

type_synonym heap = "ndarray list"

datatype outcome = Returned addr addr addr | Raised error | OutsideModel

definition alloc :: "heap \<Rightarrow> ndarray \<Rightarrow> addr \<times> heap" where
  "alloc h a = (length h, h @ [a])"

text \<open>\<open>np.zeros((r, c))\<close> and \<open>np.array\<close> of a list of rows: a new array each.\<close>

definition np_zeros2 :: "heap \<Rightarrow> nat \<Rightarrow> nat \<Rightarrow> addr \<times> heap" where
  "np_zeros2 h r c = alloc h (Arr2 (replicate r (replicate c (Fin 0))))"

definition np_array2 :: "heap \<Rightarrow> mat \<Rightarrow> addr \<times> heap" where
  "np_array2 h m = alloc h (Arr2 m)"

text \<open>
  \<open>a[i] = v\<close> with a scalar \<open>v\<close>, in place: the entry \<open>i\<close> of a one-dimensional
  array, the whole row \<open>i\<close> of a two-dimensional one. The program writes at the
  indices 0 to 5 of an array of six rows only.
\<close>

definition setitem :: "heap \<Rightarrow> addr \<Rightarrow> nat \<Rightarrow> fval \<Rightarrow> heap" where
  "setitem h p i v =
     (case h ! p of
        Arr1 vs \<Rightarrow> h[p := Arr1 (vs[i := v])]
      | Arr2 rows \<Rightarrow> h[p := Arr2 (rows[i := replicate (length (rows ! i)) v])])"

text \<open>
  \<open>a.squeeze()\<close> drops the axes of length one and returns a new array object. numpy
  makes it a view on the data of \<open>a\<close>; nothing is written after line 102, so the
  view is modelled by its contents.
\<close>

definition squeeze :: "ndarray \<Rightarrow> ndarray" where
  "squeeze a =
     (case a of
        Arr1 vs \<Rightarrow> Arr1 vs
      | Arr2 rows \<Rightarrow>
          if list_all (\<lambda>r. length r = 1) rows then Arr1 (map hd rows)
          else if length rows = 1 then Arr1 (hd rows)
          else Arr2 rows)"

definition np_squeeze :: "heap \<Rightarrow> addr \<Rightarrow> addr \<times> heap" where
  "np_squeeze h p = alloc h (squeeze (h ! p))"

text \<open>
  An argument is the address of a one-dimensional array of finite numbers; \<open>rd\<close>
  reads such an array from the heap as it is at the time of the read.
\<close>

definition is_argument :: "heap \<Rightarrow> addr \<Rightarrow> bool" where
  "is_argument h p =
     (p < length h \<and> (case h ! p of Arr1 vs \<Rightarrow> list_all is_fin vs | Arr2 rows \<Rightarrow> False))"

definition rd :: "heap \<Rightarrow> addr \<Rightarrow> real list" where
  "rd h p = (case h ! p of Arr1 vs \<Rightarrow> map fin_of vs | Arr2 rows \<Rightarrow> [])"

text \<open>
  The body of \<open>dynamics\<close>, statement by statement, on the heap. Line 51 allocates
  the next state; line 55 is the first to index the arguments (\<open>uu[0]\<close>, \<open>xx[3]\<close>,
  \<open>xx[4]\<close>, \<open>xx[5]\<close>) and line 69 the first to read \<open>uu[1]\<close>; lines 66 to 71
  write the six components in place, each computed from the arguments as the heap
  holds them at that moment; lines 75, 76 and 86 allocate the zero matrices and the
  gradient; lines 102 to 104 allocate the three squeezed arrays, of which the first is
  returned. The values written are those of \<open>xxp\<close> and \<open>fx\<close> above.
\<close>

definition dynamics_run :: "heap \<Rightarrow> addr \<Rightarrow> addr \<Rightarrow> outcome \<times> heap" where
  "dynamics_run h xx uu =
     (if is_argument h xx \<and> is_argument h uu then
        let (xxp_ref, h) = np_zeros2 h ns 1
        in if length (rd h uu) < 1 \<or> length (rd h xx) < 6 then (Raised IndexError, h)
           else
             let h = setitem h xxp_ref 0 (xxp (rd h xx) (rd h uu) ! 0);
                 h = setitem h xxp_ref 1 (xxp (rd h xx) (rd h uu) ! 1);
                 h = setitem h xxp_ref 2 (xxp (rd h xx) (rd h uu) ! 2)
             in if length (rd h uu) < 2 then (Raised IndexError, h)
                else
                  let h = setitem h xxp_ref 3 (xxp (rd h xx) (rd h uu) ! 3);
                      h = setitem h xxp_ref 4 (xxp (rd h xx) (rd h uu) ! 4);
                      h = setitem h xxp_ref 5 (xxp (rd h xx) (rd h uu) ! 5);
                      (fx_zeros_ref, h) = np_zeros2 h ns ns;
                      (fu_ref, h) = np_zeros2 h ni ns;
                      (fx_ref, h) = np_array2 h (fx (rd h xx) (rd h uu));
                      (xxp_squeezed_ref, h) = np_squeeze h xxp_ref;
                      (fx_squeezed_ref, h) = np_squeeze h fx_ref;
                      (fu_squeezed_ref, h) = np_squeeze h fu_ref
                  in (Returned xxp_squeezed_ref fx_ref fu_ref, h)
      else (OutsideModel, h))"

text \<open>What a caller finds behind the outcome of a call, in a given heap.\<close>

definition returned :: "heap \<Rightarrow> outcome \<Rightarrow> (error + (vec \<times> mat \<times> mat)) option" where
  "returned h out =
     (case out of
        Returned a b c \<Rightarrow>
          (case (h ! a, h ! b, h ! c) of
             (Arr1 n, Arr2 f, Arr2 g) \<Rightarrow> Some (Inr (n, f, g))
           | _ \<Rightarrow> None)
      | Raised e \<Rightarrow> Some (Inl e)
      | OutsideModel \<Rightarrow> None)"

subsection \<open>Line 66 in binary64\<close>

text \<open>
  float64 addition, subtraction and multiplication: the exact result, rounded to the
  nearest number with a 53-bit significand, ties to the even significand. The
  exponent range is not bounded here (no overflow, no subnormal numbers), so the
  functions are those of float64 for operands and results of ordinary magnitude.
  \<open>binade q\<close> is the exponent \<open>e\<close> with \<open>2^e \<le> |q| < 2^(e+1)\<close>.
\<close>

definition pow2 :: "int \<Rightarrow> rat" where
  "pow2 k = (if 0 \<le> k then 2 ^ nat k else 1 / 2 ^ nat (- k))"

definition binade :: "rat \<Rightarrow> int" where
  "binade q =
     (let (n, d) = quotient_of \<bar>q\<bar>; b = bitlen n - bitlen d
      in if pow2 b \<le> \<bar>q\<bar> then b else b - 1)"

definition round_half_even :: "rat \<Rightarrow> int" where
  "round_half_even r =
     (let f = \<lfloor>r\<rfloor>; t = r - of_int f
      in if t < 1 / 2 then f else if 1 / 2 < t then f + 1 else if even f then f else f + 1)"

definition fl :: "rat \<Rightarrow> rat" where
  "fl q = (if q = 0 then 0
           else let s = pow2 (binade q - 52) in of_int (round_half_even (q / s)) * s)"

definition f64_add :: "rat \<Rightarrow> rat \<Rightarrow> rat" where
  "f64_add a b = fl (a + b)"

definition f64_sub :: "rat \<Rightarrow> rat \<Rightarrow> rat" where
  "f64_sub a b = fl (a - b)"

definition f64_mul :: "rat \<Rightarrow> rat \<Rightarrow> rat" where
  "f64_mul a b = fl (a * b)"

text \<open>The literal \<open>1e-3\<close> of line 13 denotes the float64 nearest to 1/1000.\<close>

definition dt64 :: rat where
  "dt64 = fl (1 / 1000)"

text \<open>
  Line 66, \<open>xx[0] + dt * (xx[3] * np.cos(xx[4]) * np.cos(xx[2]) - xx[3] * np.sin(xx[4]) *
  np.sin(xx[2]))\<close>, with every operation rounded. The four values that \<open>np.cos\<close> and
  \<open>np.sin\<close> return are arguments: numpy's rounding of them is not modelled, and
  at the angle 0 they are exactly 1 and 0.
\<close>

definition f64_line66 :: "rat \<Rightarrow> rat \<Rightarrow> rat \<Rightarrow> rat \<Rightarrow> rat \<Rightarrow> rat \<Rightarrow> rat" where
  "f64_line66 x0 x3 cos_x4 cos_x2 sin_x4 sin_x2 =
     f64_add x0 (f64_mul dt64 (f64_sub (f64_mul (f64_mul x3 cos_x4) cos_x2)
                                        (f64_mul (f64_mul x3 sin_x4) sin_x2)))"

section \<open>Properties\<close>

subsection \<open>Arithmetic of values\<close>

lemma Fin_plus [simp]:
  "Fin a + Fin b = Fin (a + b)" "NonFinite + v = NonFinite" "v + NonFinite = NonFinite"
  by (simp_all add: plus_fval_def split: fval.splits)

lemma Fin_minus [simp]:
  "Fin a - Fin b = Fin (a - b)" "NonFinite - v = NonFinite" "v - NonFinite = NonFinite"
  by (simp_all add: minus_fval_def split: fval.splits)

lemma Fin_uminus [simp]: "- Fin a = Fin (- a)" "- NonFinite = NonFinite"
  by (simp_all add: uminus_fval_def)

lemma Fin_times [simp]:
  "Fin a * Fin b = Fin (a * b)" "NonFinite * v = NonFinite" "v * NonFinite = NonFinite"
  by (simp_all add: times_fval_def split: fval.splits)

lemma Fin_divide [simp]:
  "Fin a / Fin b = (if b = 0 then NonFinite else Fin (a / b))"
  "NonFinite / v = NonFinite" "v / NonFinite = NonFinite"
  by (simp_all add: divide_fval_def split: fval.splits)

lemma np_sin_simps [simp]: "np_sin (Fin a) = Fin (sin a)" "np_sin NonFinite = NonFinite"
  by (simp_all add: np_sin_def)

lemma np_cos_simps [simp]: "np_cos (Fin a) = Fin (cos a)" "np_cos NonFinite = NonFinite"
  by (simp_all add: np_cos_def)

lemma fin_of_simps [simp]: "fin_of (Fin a) = a" "fin_of NonFinite = 0"
  by (simp_all add: fin_of_def)

lemma is_fin_simps [simp]: "is_fin (Fin a) = True" "is_fin NonFinite = False"
  by (simp_all add: is_fin_def)

lemma mm_nonzero: "mm \<noteq> 0"
  by (simp add: mm_def)

lemma Iz_nonzero: "Iz \<noteq> 0"
  by (simp add: Iz_def)

lemma axle_sum_nonzero: "aa + bb \<noteq> 0"
  by (simp add: aa_def bb_def)

subsection \<open>Slip angles and forces\<close>

lemma Fz_fin: "Fz = [Fin spec_Fz_f, Fin spec_Fz_r]"
  by (simp add: Fz_def spec_Fz_f_def spec_Fz_r_def axle_sum_nonzero)

lemma Beta_regular:
  assumes "xx ! 3 \<noteq> 0" and "cos (xx ! 4) \<noteq> 0"
  shows "Beta xx uu = [Fin (spec_beta_f xx uu), Fin (spec_beta_r xx uu)]"
  using assms by (simp add: Beta_def spec_beta_f_def spec_beta_r_def Let_def)

lemma Beta_singular:
  assumes "xx ! 3 = 0 \<or> cos (xx ! 4) = 0"
  shows "Beta xx uu = [NonFinite, NonFinite]"
  using assms by (auto simp add: Beta_def Let_def)

lemma Fy_regular:
  assumes "xx ! 3 \<noteq> 0" and "cos (xx ! 4) \<noteq> 0"
  shows "Fy xx uu = [Fin (spec_Fy_f xx uu), Fin (spec_Fy_r xx uu)]"
  by (simp add: Fy_def Fz_fin Beta_regular [OF assms] spec_Fy_f_def spec_Fy_r_def)

lemma Fy_singular:
  assumes "xx ! 3 = 0 \<or> cos (xx ! 4) = 0"
  shows "Fy xx uu = [NonFinite, NonFinite]"
  by (simp add: Fy_def Beta_singular [OF assms])

subsection \<open>The next state, component by component\<close>

lemma xxp_list:
  "xxp xx uu =
     [ Fin (xx ! 0 + dt * (xx ! 3 * cos (xx ! 4) * cos (xx ! 2) - xx ! 3 * sin (xx ! 4) * sin (xx ! 2))),
       Fin (xx ! 1 + dt * (xx ! 3 * cos (xx ! 4) * sin (xx ! 2) + xx ! 3 * sin (xx ! 4) * cos (xx ! 2))),
       Fin (xx ! 2 + dt * xx ! 5),
       Fin (xx ! 3) + Fin dt * ((Fy xx uu ! 1 * Fin (sin (xx ! 4)) + Fin (uu ! 1 * cos (xx ! 4 - uu ! 0))
              + Fy xx uu ! 0 * Fin (sin (xx ! 4 - uu ! 0))) / Fin mm),
       Fin (xx ! 4) + Fin dt * ((Fy xx uu ! 1 * Fin (cos (xx ! 4)) + Fy xx uu ! 0 * Fin (cos (xx ! 4 - uu ! 0))
              - Fin (uu ! 1 * sin (xx ! 4 - uu ! 0))) / Fin (mm * xx ! 3) - Fin (xx ! 5)),
       Fin (xx ! 5) + Fin dt * (((Fin (uu ! 1 * sin (uu ! 0)) + Fy xx uu ! 0 * Fin (cos (uu ! 0))) * Fin aa
              - Fy xx uu ! 1 * Fin bb) / Fin Iz) ]"
  by (simp add: xxp_def ns_def Let_def numeral_eq_Suc)

lemma xxp_regular:
  assumes "xx ! 3 \<noteq> 0" and "cos (xx ! 4) \<noteq> 0"
  shows "xxp xx uu = map Fin (spec_next_state xx uu)"
  using assms
  by (simp add: xxp_list Fy_regular [OF assms] spec_next_state_def Let_def mm_nonzero Iz_nonzero)

lemma fu_zero:
  "fu = [ [Fin 0, Fin 0, Fin 0, Fin 0, Fin 0, Fin 0], [Fin 0, Fin 0, Fin 0, Fin 0, Fin 0, Fin 0] ]"
  by (simp add: fu_def ns_def ni_def numeral_eq_Suc)

lemma dynamics_returns:
  assumes "length xx = 6" and "length uu = 2"
  shows "dynamics xx uu = Inr (xxp xx uu, fx xx uu, fu)"
  using assms by (simp add: dynamics_def)

subsection \<open>The gradient with respect to the state, row by row and column by column\<close>

lemma fx_row0: "fx xx uu ! 0 = [Fin 1, Fin 0, Fin 0, Fin 0, Fin 0, Fin 0]"
  by (simp add: fx_def Let_def)

lemma fx_row1: "fx xx uu ! 1 = [Fin 0, Fin 1, Fin 0, Fin 0, Fin 0, Fin 0]"
  by (simp add: fx_def Let_def)

lemma fx_row2:
  "fx xx uu ! 2 =
     [ Fin (dt * (- xx ! 3 * cos (xx ! 4) * sin (xx ! 2) - xx ! 3 * sin (xx ! 4) * cos (xx ! 2))),
       Fin (dt * (xx ! 3 * cos (xx ! 4) * cos (xx ! 2) - xx ! 3 * sin (xx ! 4) * sin (xx ! 2))),
       Fin 1, Fin 0, Fin 0, Fin 0 ]"
  by (simp add: fx_def Let_def)

lemma fx_row5: "fx xx uu ! 5 = map Fin spec_fx_row5"
  by (simp add: fx_def Let_def spec_fx_row5_def)

lemma fx_col0: "map (\<lambda>r. r ! 0) (fx xx uu) = map Fin (spec_fx_row0 xx)"
  by (simp add: fx_def Let_def spec_fx_row0_def)

lemma fx_col2: "map (\<lambda>r. r ! 2) (fx xx uu) = map Fin spec_fx_row2"
  by (simp add: fx_def Let_def spec_fx_row2_def)

lemma fx_entries:
  "fx xx uu ! 2 ! 0 = Fin (dt * (- xx ! 3 * cos (xx ! 4) * sin (xx ! 2) - xx ! 3 * sin (xx ! 4) * cos (xx ! 2)))"
  "fx xx uu ! 3 ! 0 = Fin (dt * (cos (xx ! 4) * cos (xx ! 2) - sin (xx ! 4) * sin (xx ! 2)))"
  "fx xx uu ! 4 ! 0 = Fin (dt * (- xx ! 3 * sin (xx ! 4) * cos (xx ! 2) - xx ! 3 * cos (xx ! 4) * sin (xx ! 2)))"
  "fx xx uu ! 2 ! Suc 0 = Fin (dt * (xx ! 3 * cos (xx ! 4) * cos (xx ! 2) - xx ! 3 * sin (xx ! 4) * sin (xx ! 2)))"
  "fx xx uu ! 3 ! Suc 0 = Fin (dt * (cos (xx ! 4) * sin (xx ! 2) + sin (xx ! 4) * cos (xx ! 2)))"
  "fx xx uu ! 4 ! Suc 0 = Fin (dt * (- xx ! 3 * sin (xx ! 4) * sin (xx ! 2) + xx ! 3 * cos (xx ! 4) * cos (xx ! 2)))"
  by (simp_all add: fx_def Let_def)

text \<open>
  The entries of rows 2, 3 and 4 in columns 0 and 1 are the partial derivatives of the
  position updates with respect to heading, speed and sideslip.
\<close>

lemma partial_X:
  assumes "length x = 6"
  shows "partial_xxp x u 0 2 (fin_of (fx x u ! 2 ! 0))"
    and "partial_xxp x u 0 3 (fin_of (fx x u ! 3 ! 0))"
    and "partial_xxp x u 0 4 (fin_of (fx x u ! 4 ! 0))"
  unfolding partial_xxp_def using assms
  by (auto simp add: xxp_list fx_entries algebra_simps intro!: derivative_eq_intros)

lemma partial_Y:
  assumes "length x = 6"
  shows "partial_xxp x u 1 2 (fin_of (fx x u ! 2 ! 1))"
    and "partial_xxp x u 1 3 (fin_of (fx x u ! 3 ! 1))"
    and "partial_xxp x u 1 4 (fin_of (fx x u ! 4 ! 1))"
  unfolding partial_xxp_def using assms
  by (auto simp add: xxp_list fx_entries algebra_simps intro!: derivative_eq_intros)

subsection \<open>The position enters as the leading summand only\<close>

lemma fx_shift: "fx (xx[0 := p, 1 := q]) uu = fx xx uu"
  by (simp add: fx_def Let_def Fy_def Beta_def)

lemma xxp_replace_position:
  assumes "6 \<le> length xx"
  shows "xxp (xx[0 := p, 1 := q]) uu
         = (xxp xx uu)
             [ 0 := Fin (p + dt * (xx ! 3 * cos (xx ! 4) * cos (xx ! 2) - xx ! 3 * sin (xx ! 4) * sin (xx ! 2))),
               1 := Fin (q + dt * (xx ! 3 * cos (xx ! 4) * sin (xx ! 2) + xx ! 3 * sin (xx ! 4) * cos (xx ! 2))) ]"
proof -
  from assms have "xx \<noteq> []" and "1 < length xx" by auto
  then show ?thesis
    by (simp add: xxp_list Let_def Fy_def Beta_def)
qed

subsection \<open>Standstill\<close>

lemma fx_singular:
  assumes "xx ! 3 = 0"
  shows "fx xx uu ! 3 ! 4 = NonFinite" "fx xx uu ! 4 ! 3 = NonFinite" "fx xx uu ! 4 ! 4 = NonFinite"
  using assms by (simp_all add: fx_def Let_def Fy_singular)

lemma xxp_singular:
  assumes "xx ! 3 = 0"
  shows "xxp xx uu =
     [Fin (xx ! 0), Fin (xx ! 1), Fin (xx ! 2 + dt * xx ! 5), NonFinite, NonFinite, NonFinite]"
  using assms by (simp add: xxp_list Fy_singular)

subsection \<open>Every entry of the gradient\<close>

lemma xxp_frozen_regular:
  assumes "xx ! 3 \<noteq> 0" and "cos (xx ! 4) \<noteq> 0"
  shows "xxp xx uu = map Fin (xxp_frozen (fin_of (Fy xx uu ! 0)) (fin_of (Fy xx uu ! 1)) xx uu)"
  using assms
  by (simp add: xxp_list Fy_regular [OF assms] xxp_frozen_def mm_nonzero Iz_nonzero)

lemma fx_regular:
  assumes "xx ! 3 \<noteq> 0" and "cos (xx ! 4) \<noteq> 0"
  shows "fx xx uu = map (map Fin)
      [ [1, 0, 0, 0, 0, 0],
        [0, 1, 0, 0, 0, 0],
        [dt * (- xx ! 3 * cos (xx ! 4) * sin (xx ! 2) - xx ! 3 * sin (xx ! 4) * cos (xx ! 2)),
         dt * (xx ! 3 * cos (xx ! 4) * cos (xx ! 2) - xx ! 3 * sin (xx ! 4) * sin (xx ! 2)),
         1, 0, 0, 0],
        [dt * (cos (xx ! 4) * cos (xx ! 2) - sin (xx ! 4) * sin (xx ! 2)),
         dt * (cos (xx ! 4) * sin (xx ! 2) + sin (xx ! 4) * cos (xx ! 2)),
         0, 1,
         dt * ((spec_Fy_r xx uu * cos (xx ! 4) + spec_Fy_f xx uu * cos (xx ! 4 - uu ! 0)
                - uu ! 1 * sin (xx ! 4 - uu ! 0)) * (- 1 / (mm * (xx ! 3 * xx ! 3)))),
         0],
        [dt * (- xx ! 3 * sin (xx ! 4) * cos (xx ! 2) - xx ! 3 * cos (xx ! 4) * sin (xx ! 2)),
         dt * (- xx ! 3 * sin (xx ! 4) * sin (xx ! 2) + xx ! 3 * cos (xx ! 4) * cos (xx ! 2)),
         0,
         dt * ((spec_Fy_r xx uu * cos (xx ! 4) - uu ! 1 * sin (xx ! 4 - uu ! 0)
                + spec_Fy_f xx uu * cos (xx ! 4 - uu ! 0)) / mm),
         1 + dt * ((- spec_Fy_r xx uu * sin (xx ! 4) - spec_Fy_f xx uu * sin (xx ! 4 - uu ! 0)
                    - uu ! 1 * cos (xx ! 4 - uu ! 0)) / (mm * xx ! 3)),
         0],
        [0, 0, dt, 0, - dt, 1] ]"
  using assms
  by (simp add: fx_def Let_def Fy_regular [OF assms] mm_nonzero)

lemma lt6: "(i::nat) < 6 \<Longrightarrow> i = 0 \<or> i = 1 \<or> i = 2 \<or> i = 3 \<or> i = 4 \<or> i = 5"
  by arith

lemma gradient_entry_all:
  assumes len: "length x = 6" and reg: "x ! 3 \<noteq> 0" "cos (x ! 4) \<noteq> 0"
    and i: "i < 6" and j: "j < 6"
  shows "gradient_entry x u i j"
proof -
  note F = Fy_regular [OF reg, of u]
  from lt6 [OF i] lt6 [OF j] show ?thesis
    unfolding gradient_entry_def fx_regular [OF reg] F
    using len reg
    apply (elim disjE)
    apply (simp_all add: xxp_frozen_def)
    apply (auto intro!: derivative_eq_intros simp add: mm_nonzero field_simps)
    done
qed

subsection \<open>A call on the heap\<close>

lemma rd_Fin [simp]: "rd (h @ ext) p = rd h p" if "p < length h"
  using that by (simp add: rd_def nth_append)

lemma rd_arg: "h ! p = Arr1 (map Fin x) \<Longrightarrow> rd h p = x"
  by (simp add: rd_def comp_def)

lemma is_argument_Fin: "p < length h \<Longrightarrow> h ! p = Arr1 (map Fin x) \<Longrightarrow> is_argument h p"
  by (simp add: is_argument_def list_all_iff)

lemma xxp_rows:
  "map hd ((replicate 6 [Fin 0])[0 := [xxp x u ! 0], 1 := [xxp x u ! 1], 2 := [xxp x u ! 2],
       3 := [xxp x u ! 3], 4 := [xxp x u ! 4], 5 := [xxp x u ! 5]]) = xxp x u"
  by (simp add: xxp_list numeral_eq_Suc)

lemma setitem_last:
  "setitem (h @ [Arr2 rows]) (length h) i v
     = h @ [Arr2 (rows[i := replicate (length (rows ! i)) v])]"
  by (simp add: setitem_def)

lemma run_returns:
  assumes "xx < length h" "uu < length h"
    and "h ! xx = Arr1 (map Fin x)" "h ! uu = Arr1 (map Fin u)"
    and "6 \<le> length x" "2 \<le> length u"
  shows "\<exists>g. dynamics_run h xx uu =
     (Returned (length h + 4) (length h + 3) (length h + 2),
      h @ [ g, Arr2 (replicate 6 (replicate 6 (Fin 0))),
            Arr2 fu, Arr2 (fx x u), Arr1 (xxp x u), Arr2 (fx x u), Arr2 fu ])"
proof -
  have args: "is_argument h xx" "is_argument h uu"
    using assms by (simp_all add: is_argument_Fin)
  have rx: "rd h xx = x" and ru: "rd h uu = u"
    using assms by (simp_all add: rd_arg)
  have "list_all (\<lambda>r. length r = 1) ((replicate 6 [Fin 0])[0 := [xxp x u ! 0], 1 := [xxp x u ! 1],
       2 := [xxp x u ! 2], 3 := [xxp x u ! 3], 4 := [xxp x u ! 4], 5 := [xxp x u ! 5]])"
    by (simp add: numeral_eq_Suc)
  then have sq: "squeeze (Arr2 ((replicate 6 [Fin 0])[0 := [xxp x u ! 0], 1 := [xxp x u ! 1],
       2 := [xxp x u ! 2], 3 := [xxp x u ! 3], 4 := [xxp x u ! 4], 5 := [xxp x u ! 5]])) = Arr1 (xxp x u)"
    unfolding squeeze_def by (simp only: ndarray.case if_True xxp_rows)
  have sqf: "squeeze (Arr2 (fx x u)) = Arr2 (fx x u)"
    by (simp add: squeeze_def fx_def Let_def)
  have squ: "squeeze (Arr2 fu) = Arr2 fu"
    by (simp add: squeeze_def fu_zero)
  show ?thesis
    using assms(1,2,5,6) sq sqf squ
    apply (auto simp add: dynamics_run_def args np_zeros2_def alloc_def ns_def ni_def rx ru Let_def
        setitem_last np_array2_def np_squeeze_def nth_append fu_def [symmetric, unfolded ns_def ni_def])
    done
qed

lemma run_raises_early:
  assumes "xx < length h" "uu < length h"
    and "h ! xx = Arr1 (map Fin x)" "h ! uu = Arr1 (map Fin u)"
    and "length u < 1 \<or> length x < 6"
  shows "\<exists>g. dynamics_run h xx uu = (Raised IndexError, h @ [g])"
proof -
  have args: "is_argument h xx" "is_argument h uu"
    using assms by (simp_all add: is_argument_Fin)
  have rx: "rd h xx = x" and ru: "rd h uu = u"
    using assms by (simp_all add: rd_arg)
  show ?thesis
    using assms(1,2,5)
    by (auto simp add: dynamics_run_def args np_zeros2_def alloc_def rx ru)
qed

lemma run_raises_late:
  assumes "xx < length h" "uu < length h"
    and "h ! xx = Arr1 (map Fin x)" "h ! uu = Arr1 (map Fin u)"
    and "6 \<le> length x" "length u = 1"
  shows "\<exists>g. dynamics_run h xx uu = (Raised IndexError, h @ [g])"
proof -
  have args: "is_argument h xx" "is_argument h uu"
    using assms by (simp_all add: is_argument_Fin)
  have rx: "rd h xx = x" and ru: "rd h uu = u"
    using assms by (simp_all add: rd_arg)
  show ?thesis
    using assms(1,2,5,6)
    by (auto simp add: dynamics_run_def args np_zeros2_def alloc_def rx ru Let_def setitem_last)
qed

lemma returned_fresh:
  "returned ((h @ [g, z, Arr2 c, Arr2 b, Arr1 a, b', c']) @ more)
     (Returned (length h + 4) (length h + 3) (length h + 2)) = Some (Inr (a, b, c))"
  by (simp add: returned_def nth_append)

lemma run_spec:
  assumes "xx < length h" "uu < length h"
    and "h ! xx = Arr1 (map Fin x)" "h ! uu = Arr1 (map Fin u)"
  shows "\<exists>out ext. dynamics_run h xx uu = (out, h @ ext)
           \<and> (\<forall>more. returned ((h @ ext) @ more) out = Some (dynamics x u))"
proof -
  consider "length u < 1 \<or> length x < 6" | "6 \<le> length x" "length u = 1"
    | "6 \<le> length x" "2 \<le> length u"
    by linarith
  then show ?thesis
  proof cases
    case 1
    from run_raises_early [OF assms 1] obtain g
      where "dynamics_run h xx uu = (Raised IndexError, h @ [g])" ..
    moreover from 1 have "dynamics x u = Inl IndexError"
      by (auto simp add: dynamics_def)
    ultimately show ?thesis
      by (auto simp add: returned_def)
  next
    case 2
    from run_raises_late [OF assms 2] obtain g
      where "dynamics_run h xx uu = (Raised IndexError, h @ [g])" ..
    moreover from 2 have "dynamics x u = Inl IndexError"
      by (simp add: dynamics_def)
    ultimately show ?thesis
      by (auto simp add: returned_def)
  next
    case 3
    from run_returns [OF assms 3] obtain g where
      "dynamics_run h xx uu =
        (Returned (length h + 4) (length h + 3) (length h + 2),
         h @ [g, Arr2 (replicate 6 (replicate 6 (Fin 0))),
              Arr2 fu, Arr2 (fx x u), Arr1 (xxp x u), Arr2 (fx x u), Arr2 fu])" ..
    moreover from 3 have "dynamics x u = Inr (xxp x u, fx x u, fu)"
      by (simp add: dynamics_def)
    ultimately show ?thesis
      using returned_fresh [of h g _ fu "fx x u" "xxp x u"] by auto
  qed
qed

section \<open>The properties of the specification\<close>

text \<open>
  C1. For every state \<open>x\<close> in \<open>R^6\<close> with \<open>x[3] \<noteq> 0\<close> and \<open>cos(x[4]) \<noteq> 0\<close>
  and every input \<open>u\<close> in \<open>R^2\<close>, the first value that \<open>dynamics\<close> returns is the
  forward-Euler next state of section 4 step 4 of the specification, computed through
  the slip angles, the static loads and the linear lateral forces of steps 1 to 3:
  the code's slip angles, loads and forces are finite and equal the specification's,
  and so is every component of the next state.
\<close>

theorem C1_next_state_is_forward_euler:
  assumes "length x = 6" and "length u = 2"
    and "x ! 3 \<noteq> 0" and "cos (x ! 4) \<noteq> 0"
  shows "dynamics_xxp x u = Some (map Fin (spec_next_state x u))
       \<and> Beta x u = [Fin (spec_beta_f x u), Fin (spec_beta_r x u)]
       \<and> Fz = [Fin spec_Fz_f, Fin spec_Fz_r]
       \<and> Fy x u = [Fin (spec_Fy_f x u), Fin (spec_Fy_r x u)]"
proof -
  have "dynamics_xxp x u = Some (xxp x u)"
    by (simp add: dynamics_xxp_def dynamics_returns [OF assms(1,2)])
  then have "dynamics_xxp x u = Some (map Fin (spec_next_state x u))"
    by (simp add: xxp_regular [OF assms(3,4)])
  then show ?thesis
    by (simp add: Beta_regular [OF assms(3,4)] Fy_regular [OF assms(3,4)] Fz_fin)
qed

theorem C1_witness:
  "dynamics_xxp [3, 4, 0, 10, 0, 2] [0, 5] = Some (map Fin (spec_next_state [3, 4, 0, 10, 0, 2] [0, 5]))
   \<and> Beta [3, 4, 0, 10, 0, 2] [0, 5]
       = [Fin (spec_beta_f [3, 4, 0, 10, 0, 2] [0, 5]), Fin (spec_beta_r [3, 4, 0, 10, 0, 2] [0, 5])]
   \<and> Fz = [Fin spec_Fz_f, Fin spec_Fz_r]
   \<and> Fy [3, 4, 0, 10, 0, 2] [0, 5]
       = [Fin (spec_Fy_f [3, 4, 0, 10, 0, 2] [0, 5]), Fin (spec_Fy_r [3, 4, 0, 10, 0, 2] [0, 5])]"
  using C1_next_state_is_forward_euler [of "[3, 4, 0, 10, 0, 2]" "[0, 5]"] by simp

text \<open>
  C2. Rows 2 and 5 of \<open>fx\<close>, for every state \<open>x\<close> in \<open>R^6\<close> with
  \<open>x[3] \<noteq> 0\<close> and \<open>cos(x[4]) \<noteq> 0\<close> and every input in \<open>R^2\<close>.
  The matrix the code returns is the gradient, the transpose of the Jacobian whose rows
  the specification lists. Row 5 is the constant \<open>[0,0,dt,0,-dt,1]\<close>. The constant
  \<open>[0,0,1,0,0,dt]\<close> is column 2, not row 2: row 2 holds the partial derivatives of
  the position updates with respect to the heading, then \<open>1, 0, 0, 0\<close>, and depends
  on the state.
\<close>

theorem C2_fx_row5_and_column2_constant:
  assumes "length x = 6" and "length u = 2"
    and "x ! 3 \<noteq> 0" and "cos (x ! 4) \<noteq> 0"
  shows "dynamics_fx_row x u 5 = Some (map Fin spec_fx_row5)
       \<and> dynamics_fx_col x u 2 = Some (map Fin spec_fx_row2)
       \<and> dynamics_fx_row x u 2 =
           Some [ Fin (dt * (- x ! 3 * cos (x ! 4) * sin (x ! 2) - x ! 3 * sin (x ! 4) * cos (x ! 2))),
                  Fin (dt * (x ! 3 * cos (x ! 4) * cos (x ! 2) - x ! 3 * sin (x ! 4) * sin (x ! 2))),
                  Fin 1, Fin 0, Fin 0, Fin 0 ]"
  using assms(1,2)
  by (simp add: dynamics_fx_row_def dynamics_fx_col_def dynamics_fx_def dynamics_returns
      fx_row5 fx_col2 fx_row2)

theorem C2_witness:
  "dynamics_fx_row [0, 0, 0, 10, 0, 0] [0, 0] 5 = Some (map Fin spec_fx_row5)
   \<and> dynamics_fx_col [0, 0, 0, 10, 0, 0] [0, 0] 2 = Some (map Fin spec_fx_row2)
   \<and> dynamics_fx_row [0, 0, 0, 10, 0, 0] [0, 0] 2
       = Some [Fin 0, Fin (dt * 10), Fin 1, Fin 0, Fin 0, Fin 0]"
  using C2_fx_row5_and_column2_constant [of "[0, 0, 0, 10, 0, 0]" "[0, 0]"] by simp

text \<open>
  At the state \<open>[0,0,0,10,0,0]\<close>, inside the domain of the claim, row 2 is
  \<open>[0, 10 dt, 1, 0, 0, 0]\<close> and not \<open>[0,0,1,0,0,dt]\<close>.
\<close>

theorem C2_fx_row2_counterexample:
  "[0, 0, 0, 10, 0, 0] ! 3 \<noteq> (0::real) \<and> cos ([0, 0, 0, 10, 0, 0] ! 4 :: real) \<noteq> 0
   \<and> dynamics_fx_row [0, 0, 0, 10, 0, 0] [0, 0] 2 \<noteq> Some (map Fin spec_fx_row2)"
  by (simp add: dynamics_fx_row_def dynamics_fx_def dynamics_def fx_row2 spec_fx_row2_def dt_def)

text \<open>
  C3. Row 0 of \<open>fx\<close>, for every state \<open>x\<close> in \<open>R^6\<close> with \<open>x[3] \<noteq> 0\<close>
  and \<open>cos(x[4]) \<noteq> 0\<close> and every input in \<open>R^2\<close>. The vector that section 4.1
  step 5 of the specification gives as row 0 is column 0 of the matrix the code
  returns; row 0 of that matrix is the constant \<open>[1,0,0,0,0,0]\<close>.
\<close>

theorem C3_fx_column0_position_partials:
  assumes "length x = 6" and "length u = 2"
    and "x ! 3 \<noteq> 0" and "cos (x ! 4) \<noteq> 0"
  shows "dynamics_fx_col x u 0 = Some (map Fin (spec_fx_row0 x))
       \<and> dynamics_fx_row x u 0 = Some [Fin 1, Fin 0, Fin 0, Fin 0, Fin 0, Fin 0]"
  using assms(1,2)
  by (simp add: dynamics_fx_row_def dynamics_fx_col_def dynamics_fx_def dynamics_returns
      fx_row0 fx_col0)

theorem C3_witness:
  "dynamics_fx_col [0, 0, 0, 10, 0, 0] [0, 0] 0 = Some (map Fin (spec_fx_row0 [0, 0, 0, 10, 0, 0]))
   \<and> dynamics_fx_row [0, 0, 0, 10, 0, 0] [0, 0] 0 = Some [Fin 1, Fin 0, Fin 0, Fin 0, Fin 0, Fin 0]"
  using C3_fx_column0_position_partials [of "[0, 0, 0, 10, 0, 0]" "[0, 0]"] by simp

text \<open>
  At the state \<open>[0,0,0,10,0,0]\<close>, inside the domain of the claim, row 0 is
  \<open>[1,0,0,0,0,0]\<close> while the specification's row 0 is \<open>[1,0,0,dt,0,0]\<close>.
\<close>

theorem C3_fx_row0_counterexample:
  "[0, 0, 0, 10, 0, 0] ! 3 \<noteq> (0::real) \<and> cos ([0, 0, 0, 10, 0, 0] ! 4 :: real) \<noteq> 0
   \<and> dynamics_fx_row [0, 0, 0, 10, 0, 0] [0, 0] 0 \<noteq> Some (map Fin (spec_fx_row0 [0, 0, 0, 10, 0, 0]))"
  by (simp add: dynamics_fx_row_def dynamics_fx_def dynamics_def fx_row0 spec_fx_row0_def dt_def)

text \<open>
  C4. For every state and input, the third value that \<open>dynamics\<close> returns is the
  2-by-6 matrix of zeros: whenever the call returns (the input has two components and
  the state six), no entry of \<open>fu\<close> is anything but zero.
\<close>

theorem C4_fu_is_zero:
  "dynamics_fu x u =
     (if length u < 2 \<or> length x < 6 then None
      else Some [ [Fin 0, Fin 0, Fin 0, Fin 0, Fin 0, Fin 0],
                  [Fin 0, Fin 0, Fin 0, Fin 0, Fin 0, Fin 0] ])"
  by (simp add: dynamics_fu_def dynamics_def fu_zero)

text \<open>
  C5. For every state \<open>x\<close> and every input \<open>u\<close>, component 2 of the next state is
  \<open>x[2] + dt * x[5]\<close> exactly, a finite value also where the slip angles are singular;
  it is the same for any two inputs, so it depends neither on the input nor on the
  tire forces.
\<close>

theorem C5_yaw_integration:
  assumes "length x = 6" and "length u = 2" and "length u' = 2"
  shows "dynamics_xxp_at x u 2 = Some (Fin (x ! 2 + dt * x ! 5))
       \<and> dynamics_xxp_at x u' 2 = dynamics_xxp_at x u 2"
  using assms
  by (simp add: dynamics_xxp_at_def dynamics_xxp_def dynamics_returns xxp_list)

theorem C5_witness:
  "dynamics_xxp_at [0, 0, 1, 0, 0, 2] [3, 4] 2 = Some (Fin (1 + dt * 2))
   \<and> dynamics_xxp_at [0, 0, 1, 0, 0, 2] [5, 6] 2 = dynamics_xxp_at [0, 0, 1, 0, 0, 2] [3, 4] 2"
  using C5_yaw_integration [of "[0, 0, 1, 0, 0, 2]" "[3, 4]" "[5, 6]"] by simp

text \<open>
  C6. With the parameter values fixed in the module, the state \<open>[0,0,0,10,0,0]\<close> and
  the input \<open>[0,0]\<close> give slip angles 0, lateral forces 0 and the next state
  \<open>[0.01, 0, 0, 10, 0, 0]\<close>.
\<close>

theorem C6_straight_line_example:
  "mm = 1480 \<and> Iz = 1950 \<and> aa = 1421 / 1000 \<and> bb = 1029 / 1000 \<and> mi = 1
   \<and> gg = 981 / 100 \<and> dt = 1 / 1000
   \<and> Beta [0, 0, 0, 10, 0, 0] [0, 0] = [Fin 0, Fin 0]
   \<and> Fy [0, 0, 0, 10, 0, 0] [0, 0] = [Fin 0, Fin 0]
   \<and> dynamics_xxp [0, 0, 0, 10, 0, 0] [0, 0]
       = Some [Fin (1 / 100), Fin 0, Fin 0, Fin 10, Fin 0, Fin 0]"
proof -
  have b: "Beta [0, 0, 0, 10, 0, 0] [0, 0] = [Fin 0, Fin 0]"
    by (simp add: Beta_def Let_def)
  have f: "Fy [0, 0, 0, 10, 0, 0] [0, 0] = [Fin 0, Fin 0]"
    by (simp add: Fy_def b Fz_fin)
  have "xxp [0, 0, 0, 10, 0, 0] [0, 0] = [Fin (1 / 100), Fin 0, Fin 0, Fin 10, Fin 0, Fin 0]"
    by (simp add: xxp_list f mm_nonzero Iz_nonzero) (simp add: dt_def)
  then have "dynamics_xxp [0, 0, 0, 10, 0, 0] [0, 0]
      = Some [Fin (1 / 100), Fin 0, Fin 0, Fin 10, Fin 0, Fin 0]"
    by (simp add: dynamics_xxp_def dynamics_def)
  with b f show ?thesis
    by (simp add: mm_def Iz_def aa_def bb_def mi_def gg_def dt_def)
qed

text \<open>
  C7. For every input, a call on a state with \<open>x[3] = 0\<close> returns: no exception is
  raised. The slip angles and the lateral forces are non-finite (an infinity or a NaN),
  and so are the outputs computed from them: components 3, 4 and 5 of the next state and
  the entries (3,4), (4,3) and (4,4) of \<open>fx\<close>. The three other components of the next
  state are finite.
\<close>

theorem C7_singular_speed:
  assumes "length x = 6" and "length u = 2" and "x ! 3 = 0"
  shows "dynamics x u = Inr (xxp x u, fx x u, fu)
       \<and> Beta x u = [NonFinite, NonFinite]
       \<and> Fy x u = [NonFinite, NonFinite]
       \<and> xxp x u = [Fin (x ! 0), Fin (x ! 1), Fin (x ! 2 + dt * x ! 5), NonFinite, NonFinite, NonFinite]
       \<and> fx x u ! 3 ! 4 = NonFinite \<and> fx x u ! 4 ! 3 = NonFinite \<and> fx x u ! 4 ! 4 = NonFinite"
  using assms
  by (simp add: dynamics_returns Beta_singular Fy_singular xxp_singular fx_singular)

theorem C7_witness:
  "dynamics [1, 2, 3, 0, 4, 5] [6, 7] = Inr (xxp [1, 2, 3, 0, 4, 5] [6, 7], fx [1, 2, 3, 0, 4, 5] [6, 7], fu)
   \<and> Beta [1, 2, 3, 0, 4, 5] [6, 7] = [NonFinite, NonFinite]
   \<and> Fy [1, 2, 3, 0, 4, 5] [6, 7] = [NonFinite, NonFinite]
   \<and> xxp [1, 2, 3, 0, 4, 5] [6, 7] = [Fin 1, Fin 2, Fin (3 + dt * 5), NonFinite, NonFinite, NonFinite]
   \<and> fx [1, 2, 3, 0, 4, 5] [6, 7] ! 3 ! 4 = NonFinite
   \<and> fx [1, 2, 3, 0, 4, 5] [6, 7] ! 4 ! 3 = NonFinite
   \<and> fx [1, 2, 3, 0, 4, 5] [6, 7] ! 4 ! 4 = NonFinite"
  using C7_singular_speed [of "[1, 2, 3, 0, 4, 5]" "[6, 7]"] by simp

text \<open>
  C8. \<open>dynamics\<close> is deterministic and without side effects. Called on the
  addresses of two arrays holding \<open>x\<close> and \<open>u\<close>, in any heap: every array that
  existed before the call, the two arguments among them, is unchanged after it; what
  the call returns is \<open>dynamics x u\<close>, a function of the contents of the two
  arguments alone, whatever else the heap holds; a second call on the heap the first
  one left returns the same, and leaves what the first call returned as it was, so
  nothing is kept from one call to the next.
\<close>

theorem C8_no_side_effects_same_result:
  assumes "xx < length h" and "uu < length h"
    and "h ! xx = Arr1 (map Fin x)" and "h ! uu = Arr1 (map Fin u)"
  shows "(let (out1, h1) = dynamics_run h xx uu; (out2, h2) = dynamics_run h1 xx uu
          in take (length h) h1 = h
           \<and> returned h1 out1 = Some (dynamics x u)
           \<and> take (length h1) h2 = h1
           \<and> returned h2 out2 = Some (dynamics x u)
           \<and> returned h2 out1 = Some (dynamics x u))"
proof -
  from run_spec [OF assms] obtain out1 ext1 where
    r1: "dynamics_run h xx uu = (out1, h @ ext1)"
    and k1: "\<And>more. returned ((h @ ext1) @ more) out1 = Some (dynamics x u)"
    by blast
  have "xx < length (h @ ext1)" "uu < length (h @ ext1)"
    "(h @ ext1) ! xx = Arr1 (map Fin x)" "(h @ ext1) ! uu = Arr1 (map Fin u)"
    using assms by (simp_all add: nth_append)
  from run_spec [OF this] obtain out2 ext2 where
    r2: "dynamics_run (h @ ext1) xx uu = (out2, (h @ ext1) @ ext2)"
    and k2: "\<And>more. returned (((h @ ext1) @ ext2) @ more) out2 = Some (dynamics x u)"
    by blast
  from k1 [of "[]"] k1 [of ext2] k2 [of "[]"] show ?thesis
    by (simp add: r1 r2)
qed

theorem C8_witness:
  "(let (out1, h1) = dynamics_run [Arr1 (map Fin [0, 0, 0, 10, 0, 0]), Arr1 (map Fin [0, 0])] 0 1;
        (out2, h2) = dynamics_run h1 0 1
    in take (length [Arr1 (map Fin [0, 0, 0, 10, 0, 0]), Arr1 (map Fin [0, 0])]) h1
         = [Arr1 (map Fin [0, 0, 0, 10, 0, 0]), Arr1 (map Fin [0, 0])]
     \<and> returned h1 out1 = Some (dynamics [0, 0, 0, 10, 0, 0] [0, 0])
     \<and> take (length h1) h2 = h1
     \<and> returned h2 out2 = Some (dynamics [0, 0, 0, 10, 0, 0] [0, 0])
     \<and> returned h2 out1 = Some (dynamics [0, 0, 0, 10, 0, 0] [0, 0]))"
  using C8_no_side_effects_same_result
    [of 0 "[Arr1 (map Fin [0, 0, 0, 10, 0, 0]), Arr1 (map Fin [0, 0])]" 1 "[0, 0, 0, 10, 0, 0]" "[0, 0]"]
  by simp

text \<open>
  C9. For every state and input, rows 0 and 1 of \<open>fx\<close> are the standard basis vectors
  \<open>[1,0,0,0,0,0]\<close> and \<open>[0,1,0,0,0,0]\<close>, and the state-dependent partial
  derivatives of the position updates stand in rows 2, 3 and 4 at columns 0 and 1:
  the specification's row 0 is column 0 of the matrix. The whole matrix is laid out
  as the transpose of the row convention of the specification: wherever the entries
  are finite (\<open>x[3] \<noteq> 0\<close> and \<open>cos(x[4]) \<noteq> 0\<close>), each of the 36 entries
  \<open>fx[i][j]\<close> is the derivative of the next-state component \<open>j\<close> with respect to
  the state component \<open>i\<close>, for the terms the model differentiates, that is with the
  two lateral forces held fixed.
\<close>

theorem C9_transposed_layout:
  assumes "length x = 6" and "length u = 2"
  shows "dynamics_fx x u = Some (fx x u)
       \<and> dynamics_fx_row x u 0 = Some [Fin 1, Fin 0, Fin 0, Fin 0, Fin 0, Fin 0]
       \<and> dynamics_fx_row x u 1 = Some [Fin 0, Fin 1, Fin 0, Fin 0, Fin 0, Fin 0]
       \<and> dynamics_fx_col x u 0 = Some (map Fin (spec_fx_row0 x))
       \<and> dynamics_fx_at x u 2 0 = Some (Fin (dt * (- x ! 3 * cos (x ! 4) * sin (x ! 2) - x ! 3 * sin (x ! 4) * cos (x ! 2))))
       \<and> dynamics_fx_at x u 3 0 = Some (Fin (dt * (cos (x ! 4) * cos (x ! 2) - sin (x ! 4) * sin (x ! 2))))
       \<and> dynamics_fx_at x u 4 0 = Some (Fin (dt * (- x ! 3 * sin (x ! 4) * cos (x ! 2) - x ! 3 * cos (x ! 4) * sin (x ! 2))))
       \<and> dynamics_fx_at x u 2 1 = Some (Fin (dt * (x ! 3 * cos (x ! 4) * cos (x ! 2) - x ! 3 * sin (x ! 4) * sin (x ! 2))))
       \<and> dynamics_fx_at x u 3 1 = Some (Fin (dt * (cos (x ! 4) * sin (x ! 2) + sin (x ! 4) * cos (x ! 2))))
       \<and> dynamics_fx_at x u 4 1 = Some (Fin (dt * (- x ! 3 * sin (x ! 4) * sin (x ! 2) + x ! 3 * cos (x ! 4) * cos (x ! 2))))
       \<and> partial_xxp x u 0 2 (fin_of (fx x u ! 2 ! 0))
       \<and> partial_xxp x u 0 3 (fin_of (fx x u ! 3 ! 0))
       \<and> partial_xxp x u 0 4 (fin_of (fx x u ! 4 ! 0))
       \<and> partial_xxp x u 1 2 (fin_of (fx x u ! 2 ! 1))
       \<and> partial_xxp x u 1 3 (fin_of (fx x u ! 3 ! 1))
       \<and> partial_xxp x u 1 4 (fin_of (fx x u ! 4 ! 1))
       \<and> (x ! 3 \<noteq> 0 \<and> cos (x ! 4) \<noteq> 0 \<longrightarrow>
            dynamics_xxp x u
              = Some (map Fin (xxp_frozen (fin_of (Fy x u ! 0)) (fin_of (Fy x u ! 1)) x u))
            \<and> (\<forall>i<6. \<forall>j<6. gradient_entry x u i j))"
proof -
  have d: "dynamics_fx x u = Some (fx x u)"
    by (simp add: dynamics_fx_def dynamics_returns [OF assms])
  have rows: "dynamics_fx_row x u 0 = Some [Fin 1, Fin 0, Fin 0, Fin 0, Fin 0, Fin 0]"
    "dynamics_fx_row x u 1 = Some [Fin 0, Fin 1, Fin 0, Fin 0, Fin 0, Fin 0]"
    by (simp_all add: dynamics_fx_row_def d fx_row0 fx_row1 del: One_nat_def)
  have col: "dynamics_fx_col x u 0 = Some (map Fin (spec_fx_row0 x))"
    by (simp add: dynamics_fx_col_def d fx_col0)
  have entries:
    "dynamics_fx_at x u 2 0 = Some (Fin (dt * (- x ! 3 * cos (x ! 4) * sin (x ! 2) - x ! 3 * sin (x ! 4) * cos (x ! 2))))"
    "dynamics_fx_at x u 3 0 = Some (Fin (dt * (cos (x ! 4) * cos (x ! 2) - sin (x ! 4) * sin (x ! 2))))"
    "dynamics_fx_at x u 4 0 = Some (Fin (dt * (- x ! 3 * sin (x ! 4) * cos (x ! 2) - x ! 3 * cos (x ! 4) * sin (x ! 2))))"
    "dynamics_fx_at x u 2 1 = Some (Fin (dt * (x ! 3 * cos (x ! 4) * cos (x ! 2) - x ! 3 * sin (x ! 4) * sin (x ! 2))))"
    "dynamics_fx_at x u 3 1 = Some (Fin (dt * (cos (x ! 4) * sin (x ! 2) + sin (x ! 4) * cos (x ! 2))))"
    "dynamics_fx_at x u 4 1 = Some (Fin (dt * (- x ! 3 * sin (x ! 4) * sin (x ! 2) + x ! 3 * cos (x ! 4) * cos (x ! 2))))"
    by (simp_all add: dynamics_fx_at_def d fx_entries)
  have whole: "dynamics_xxp x u
        = Some (map Fin (xxp_frozen (fin_of (Fy x u ! 0)) (fin_of (Fy x u ! 1)) x u))
      \<and> (\<forall>i<6. \<forall>j<6. gradient_entry x u i j)"
    if reg: "x ! 3 \<noteq> 0" "cos (x ! 4) \<noteq> 0"
  proof -
    have "dynamics_xxp x u = Some (xxp x u)"
      by (simp add: dynamics_xxp_def dynamics_returns [OF assms])
    with xxp_frozen_regular [OF reg, of u] gradient_entry_all [OF assms(1) reg, of _ _ u]
    show ?thesis by simp
  qed
  from d rows col entries partial_X [OF assms(1)] partial_Y [OF assms(1)] whole show ?thesis
    by blast
qed

theorem C9_witness:
  "dynamics_fx_row [0, 0, 0, 10, 0, 0] [0, 0] 0 = Some [Fin 1, Fin 0, Fin 0, Fin 0, Fin 0, Fin 0]
   \<and> dynamics_fx_row [0, 0, 0, 10, 0, 0] [0, 0] 1 = Some [Fin 0, Fin 1, Fin 0, Fin 0, Fin 0, Fin 0]
   \<and> dynamics_fx_col [0, 0, 0, 10, 0, 0] [0, 0] 0 = Some (map Fin (spec_fx_row0 [0, 0, 0, 10, 0, 0]))
   \<and> dynamics_fx_at [0, 0, 0, 10, 0, 0] [0, 0] 3 0 = Some (Fin dt)
   \<and> dynamics_fx_at [0, 0, 0, 10, 0, 0] [0, 0] 2 1 = Some (Fin (dt * 10))
   \<and> partial_xxp [0, 0, 0, 10, 0, 0] [0, 0] 0 3 (fin_of (fx [0, 0, 0, 10, 0, 0] [0, 0] ! 3 ! 0))
   \<and> partial_xxp [0, 0, 0, 10, 0, 0] [0, 0] 1 2 (fin_of (fx [0, 0, 0, 10, 0, 0] [0, 0] ! 2 ! 1))
   \<and> gradient_entry [0, 0, 0, 10, 0, 0] [0, 0] 3 4
   \<and> gradient_entry [0, 0, 0, 10, 0, 0] [0, 0] 4 3
   \<and> gradient_entry [0, 0, 0, 10, 0, 0] [0, 0] 4 4
   \<and> gradient_entry [0, 0, 0, 10, 0, 0] [0, 0] 5 2
   \<and> gradient_entry [0, 0, 0, 10, 0, 0] [0, 0] 5 4"
  using C9_transposed_layout [of "[0, 0, 0, 10, 0, 0]" "[0, 0]"] by simp

text \<open>
  C10. The position enters the outputs as the leading summand of components 0 and 1
  only. On the state with \<open>x[0] + dX\<close> and \<open>x[1] + dY\<close> substituted, components
  2 to 5 of the next state, \<open>fx\<close> and \<open>fu\<close> are those of \<open>dynamics(x, u)\<close>, and
  components 0 and 1 are \<open>(x[0] + dX) + t0\<close> and \<open>(x[1] + dY) + t1\<close> with the
  increments \<open>t0\<close> and \<open>t1\<close> of the unshifted call, which do not depend on the
  position. Over the real numbers that is a shift by exactly \<open>dX\<close> and \<open>dY\<close>;
  in float64 it is not, as the rounded evaluation of line 66 below shows.
\<close>

theorem C10_position_is_leading_summand:
  assumes "length x = 6" and "length u = 2"
  shows "dynamics (x[0 := x ! 0 + dX, 1 := x ! 1 + dY]) u
           = Inr ((xxp x u)
                    [ 0 := Fin ((x ! 0 + dX)
                            + dt * (x ! 3 * cos (x ! 4) * cos (x ! 2) - x ! 3 * sin (x ! 4) * sin (x ! 2))),
                      1 := Fin ((x ! 1 + dY)
                            + dt * (x ! 3 * cos (x ! 4) * sin (x ! 2) + x ! 3 * sin (x ! 4) * cos (x ! 2))) ],
                  fx x u, fu)
       \<and> dynamics x u = Inr (xxp x u, fx x u, fu)
       \<and> xxp x u ! 0
           = Fin (x ! 0 + dt * (x ! 3 * cos (x ! 4) * cos (x ! 2) - x ! 3 * sin (x ! 4) * sin (x ! 2)))
       \<and> xxp x u ! 1
           = Fin (x ! 1 + dt * (x ! 3 * cos (x ! 4) * sin (x ! 2) + x ! 3 * sin (x ! 4) * cos (x ! 2)))"
proof -
  have len: "length (x[0 := x ! 0 + dX, 1 := x ! 1 + dY]) = 6"
    using assms(1) by simp
  have "dynamics (x[0 := x ! 0 + dX, 1 := x ! 1 + dY]) u
      = Inr (xxp (x[0 := x ! 0 + dX, 1 := x ! 1 + dY]) u, fx (x[0 := x ! 0 + dX, 1 := x ! 1 + dY]) u, fu)"
    by (rule dynamics_returns [OF len assms(2)])
  moreover have "xxp (x[0 := x ! 0 + dX, 1 := x ! 1 + dY]) u
      = (xxp x u)
          [ 0 := Fin ((x ! 0 + dX)
                  + dt * (x ! 3 * cos (x ! 4) * cos (x ! 2) - x ! 3 * sin (x ! 4) * sin (x ! 2))),
            1 := Fin ((x ! 1 + dY)
                  + dt * (x ! 3 * cos (x ! 4) * sin (x ! 2) + x ! 3 * sin (x ! 4) * cos (x ! 2))) ]"
    using assms(1) by (intro xxp_replace_position) simp
  moreover have "fx (x[0 := x ! 0 + dX, 1 := x ! 1 + dY]) u = fx x u"
    by (rule fx_shift)
  ultimately have shifted: "dynamics (x[0 := x ! 0 + dX, 1 := x ! 1 + dY]) u
      = Inr ((xxp x u)
               [ 0 := Fin ((x ! 0 + dX)
                       + dt * (x ! 3 * cos (x ! 4) * cos (x ! 2) - x ! 3 * sin (x ! 4) * sin (x ! 2))),
                 1 := Fin ((x ! 1 + dY)
                       + dt * (x ! 3 * cos (x ! 4) * sin (x ! 2) + x ! 3 * sin (x ! 4) * cos (x ! 2))) ],
             fx x u, fu)"
    by (simp only:)
  have comps:
    "xxp x u ! 0
       = Fin (x ! 0 + dt * (x ! 3 * cos (x ! 4) * cos (x ! 2) - x ! 3 * sin (x ! 4) * sin (x ! 2)))"
    "xxp x u ! 1
       = Fin (x ! 1 + dt * (x ! 3 * cos (x ! 4) * sin (x ! 2) + x ! 3 * sin (x ! 4) * cos (x ! 2)))"
    by (simp_all add: xxp_list)
  from shifted dynamics_returns [OF assms] comps show ?thesis
    by (simp only: simp_thms)
qed

theorem C10_witness:
  "dynamics ([1, 2, 0, 10, 0, 0][0 := [1, 2, 0, 10, 0, 0] ! 0 + 5, 1 := [1, 2, 0, 10, 0, 0] ! 1 + 7]) [0, 0]
     = Inr ((xxp [1, 2, 0, 10, 0, 0] [0, 0])[0 := Fin ((1 + 5) + dt * 10), 1 := Fin (2 + 7)],
            fx [1, 2, 0, 10, 0, 0] [0, 0], fu)
   \<and> dynamics [1, 2, 0, 10, 0, 0] [0, 0]
       = Inr (xxp [1, 2, 0, 10, 0, 0] [0, 0], fx [1, 2, 0, 10, 0, 0] [0, 0], fu)
   \<and> xxp [1, 2, 0, 10, 0, 0] [0, 0] ! 0 = Fin (1 + dt * 10)
   \<and> xxp [1, 2, 0, 10, 0, 0] [0, 0] ! 1 = Fin 2"
  using C10_position_is_leading_summand [of "[1, 2, 0, 10, 0, 0]" "[0, 0]" 5 7] by simp

text \<open>
  In float64 the shift is not exact. At \<open>x[0] = 0.1\<close>, speed 10, heading and sideslip
  0 (so the cosines are 1 and the sines 0) and \<open>dX = 0.2\<close>, line 66 on the shifted
  state gives 0.31000000000000005, while adding \<open>dX\<close> to what it gives on the
  unshifted state gives 0.31. The first three equations give the float64 numbers that
  the literals 0.1, 0.2 and 1e-3 denote.
\<close>

theorem C10_float64_shift_counterexample:
  "fl (1 / 10) = 3602879701896397 / 36028797018963968
   \<and> fl (1 / 5) = 3602879701896397 / 18014398509481984
   \<and> dt64 = 1152921504606847 / 1152921504606846976
   \<and> f64_line66 (f64_add (fl (1 / 10)) (fl (1 / 5))) 10 1 1 0 0
     = 698057942242427 / 2251799813685248
   \<and> f64_add (f64_line66 (fl (1 / 10)) 10 1 1 0 0) (fl (1 / 5))
     = 5584463537939415 / 18014398509481984
   \<and> f64_line66 (f64_add (fl (1 / 10)) (fl (1 / 5))) 10 1 1 0 0
     \<noteq> f64_add (f64_line66 (fl (1 / 10)) 10 1 1 0 0) (fl (1 / 5))"
  by code_simp

end
